theory Spec2Isabelle
  imports Main
begin

section \<open>Text primitives of the platform\<close>

text \<open>
  The metrics client works on the text printed by \<^verbatim>\<open>ps\<close>, \<^verbatim>\<open>lsof\<close> and \<^verbatim>\<open>curl\<close>.
  A JavaScript string is modelled as a \<^typ>\<open>string\<close> whose characters are the code points
  0..255; the classes below are the ones \<^verbatim>\<open>String.prototype.trim\<close> and the regular
  expression escapes \<^verbatim>\<open>\s\<close> and \<^verbatim>\<open>\d\<close> have in that range.
\<close>

definition is_space :: "char \<Rightarrow> bool" where
  "is_space c = (c \<in> {CHR 0x09, CHR 0x0A, CHR 0x0B, CHR 0x0C, CHR 0x0D, CHR 0x20, CHR 0xA0})"

definition is_digit :: "char \<Rightarrow> bool" where
  "is_digit c = (48 \<le> (of_char c :: nat) \<and> (of_char c :: nat) \<le> 57)"

definition is_alpha :: "char \<Rightarrow> bool" where
  "is_alpha c =
     ((97 \<le> (of_char c :: nat) \<and> (of_char c :: nat) \<le> 122) \<or>
      (65 \<le> (of_char c :: nat) \<and> (of_char c :: nat) \<le> 90))"

definition is_hex_digit :: "char \<Rightarrow> bool" where
  "is_hex_digit c =
     (is_digit c \<or> (97 \<le> (of_char c :: nat) \<and> (of_char c :: nat) \<le> 102) \<or>
      (65 \<le> (of_char c :: nat) \<and> (of_char c :: nat) \<le> 70))"

text \<open>The character class \<^verbatim>\<open>[a-zA-Z0-9-]\<close> of the token pattern.\<close>

definition is_token_char :: "char \<Rightarrow> bool" where
  "is_token_char c = (is_alpha c \<or> is_digit c \<or> c = CHR ''-'')"

text \<open>\<^verbatim>\<open>s.trim()\<close>\<close>

definition trim :: "string \<Rightarrow> string" where
  "trim s = rev (dropWhile is_space (rev (dropWhile is_space s)))"

text \<open>\<^verbatim>\<open>s.split('\n')\<close>: never empty, the pieces between the line feeds.\<close>

fun split_lines :: "string \<Rightarrow> string list" where
  "split_lines [] = [[]]"
| "split_lines (c # cs) =
     (if c = CHR 0x0A then [] # split_lines cs
      else (case split_lines cs of [] \<Rightarrow> [[c]] | l # ls \<Rightarrow> (c # l) # ls))"

text \<open>\<^verbatim>\<open>s.split(/\s+/)\<close>: the pieces between the maximal runs of white space.\<close>

fun split_ws :: "string \<Rightarrow> string list" where
  "split_ws [] = [[]]"
| "split_ws (c # cs) =
     (if is_space c then
        (case cs of
           [] \<Rightarrow> [] # split_ws cs
         | d # _ \<Rightarrow> if is_space d then split_ws cs else [] # split_ws cs)
      else (case split_ws cs of [] \<Rightarrow> [[c]] | w # ws \<Rightarrow> (c # w) # ws))"

text \<open>\<^verbatim>\<open>xs[i]\<close> on an array: \<^verbatim>\<open>undefined\<close> out of range.\<close>

fun index :: "'a list \<Rightarrow> nat \<Rightarrow> 'a option" where
  "index [] i = None"
| "index (x # xs) 0 = Some x"
| "index (x # xs) (Suc i) = index xs i"

text \<open>
  \<^verbatim>\<open>isNaN(parseInt(s))\<close>: \<^verbatim>\<open>parseInt\<close> skips leading white space and one sign, reads
  hexadecimal after \<^verbatim>\<open>0x\<close> and decimal otherwise, and is \<^verbatim>\<open>NaN\<close> exactly when no digit
  follows.
\<close>

definition parseInt_isNaN :: "string \<Rightarrow> bool" where
  "parseInt_isNaN s =
     (let t = dropWhile is_space s;
          u = (case t of [] \<Rightarrow> t | c # r \<Rightarrow> if c = CHR ''+'' \<or> c = CHR ''-'' then r else t)
      in case u of
           [] \<Rightarrow> True
         | [d] \<Rightarrow> \<not> is_digit d
         | d # x # r \<Rightarrow>
             if d = CHR ''0'' \<and> (x = CHR ''x'' \<or> x = CHR ''X'')
             then (case r of [] \<Rightarrow> True | h # _ \<Rightarrow> \<not> is_hex_digit h)
             else \<not> is_digit d)"

text \<open>
  \<^verbatim>\<open>line.match(/--csrf_token\s+([a-zA-Z0-9-]+)/)\<close>, group 1 of the leftmost match.
  Both repetitions are greedy and the two classes are disjoint, so a match at a position
  takes the whole run of white space and then the whole run of token characters.
\<close>

definition token_flag :: string where
  "token_flag = ''--csrf_token''"

definition match_token_at :: "string \<Rightarrow> string option" where
  "match_token_at s =
     (if take (length token_flag) s = token_flag then
        (let r = drop (length token_flag) s;
             t = takeWhile is_token_char (dropWhile is_space r)
         in if takeWhile is_space r \<noteq> [] \<and> t \<noteq> [] then Some t else None)
      else None)"

fun match_token :: "string \<Rightarrow> string option" where
  "match_token [] = None"
| "match_token (c # cs) =
     (case match_token_at (c # cs) of Some t \<Rightarrow> Some t | None \<Rightarrow> match_token cs)"

text \<open>\<^verbatim>\<open>line.match(/:(\d+)\s/)\<close>, group 1 of the leftmost match.\<close>

definition match_port_at :: "string \<Rightarrow> string option" where
  "match_port_at s =
     (case s of
        [] \<Rightarrow> None
      | c # r \<Rightarrow>
          if c = CHR '':'' then
            (let d = takeWhile is_digit r
             in case dropWhile is_digit r of
                  [] \<Rightarrow> None
                | e # _ \<Rightarrow> if d \<noteq> [] \<and> is_space e then Some d else None)
          else None)"

fun match_port :: "string \<Rightarrow> string option" where
  "match_port [] = None"
| "match_port (c # cs) =
     (case match_port_at (c # cs) of Some d \<Rightarrow> Some d | None \<Rightarrow> match_port cs)"

section \<open>The shell\<close>

text \<open>
  \<^verbatim>\<open>execSync(command, {encoding: 'utf-8', timeout})\<close> either returns what the command
  printed or throws (a non-zero exit status, or the time limit in milliseconds reached).
  The shell is a parameter of the model; it answers a command the same way during one
  discovery.
\<close>

datatype exec_result = Threw | Stdout string

type_synonym shell = "string \<Rightarrow> nat \<Rightarrow> exec_result"

definition ps_command :: string where
  \<open>ps_command = ''ps aux | grep -E "language_server_macos|language_server" | grep "csrf_token" | grep -v grep''\<close>

definition lsof_command :: "string \<Rightarrow> string" where
  \<open>lsof_command pid = ''lsof -iTCP -sTCP:LISTEN -P -n -p '' @ pid @ '' 2>/dev/null | grep "127.0.0.1"''\<close>

definition curl_command :: "string \<Rightarrow> string \<Rightarrow> string" where
  \<open>curl_command port token =
     ''curl -s -o /dev/null -w "%{http_code}" -X POST "http://127.0.0.1:'' @ port
       @ ''/exa.language_server_pb.LanguageServerService/GetUserStatus" ''
       @ ''-H "X-Codeium-Csrf-Token: '' @ token @ ''" ''
       @ ''-H "Connect-Protocol-Version: 1" ''
       @ ''-H "Content-Type: application/json" ''
       @ ''-d '{}' 2>/dev/null''\<close>

definition discovery_timeout :: nat where
  "discovery_timeout = 5000"

definition probe_timeout :: nat where
  "probe_timeout = 3000"

section \<open>Server discovery\<close>

record ServerInfo =
  pid :: string
  token :: string
  port :: string

text \<open>
  Every call of \<^verbatim>\<open>execSync\<close> and every HTTP request is recorded with its time limit,
  in the order made. The port of a request is the decimal text found by the port pattern,
  which \<^verbatim>\<open>parseInt\<close> reads back as the same number.
\<close>

record request =
  hostname :: string
  req_port :: string
  path :: string
  req_method :: string
  headers :: "(string \<times> string) list"
  body :: string

datatype effect = Exec string nat | Http request nat

text \<open>The port extraction loop of \<^verbatim>\<open>discoverServer\<close>.\<close>

fun collect_ports :: "string list \<Rightarrow> string list" where
  "collect_ports [] = []"
| "collect_ports (line # lines) =
     (case match_port line of
        Some p \<Rightarrow> p # collect_ports lines
      | None \<Rightarrow> collect_ports lines)"

text \<open>
  The probe \<^verbatim>\<open>curl\<close> prints the HTTP status; the port is taken when the trimmed output is
  \<^verbatim>\<open>'200'\<close>.
\<close>

definition responds_200 :: "shell \<Rightarrow> string \<Rightarrow> string \<Rightarrow> bool" where
  "responds_200 sh tok p =
     (case sh (curl_command p tok) probe_timeout of
        Threw \<Rightarrow> False
      | Stdout out \<Rightarrow> trim out = ''200'')"

text \<open>
  The probing loop: the first port whose probe prints 200 is returned; a probe that throws
  is caught inside the loop and the next port is tried.
\<close>

fun probe_ports :: "shell \<Rightarrow> string \<Rightarrow> string \<Rightarrow> string list \<Rightarrow> ServerInfo option \<times> effect list" where
  "probe_ports sh p t [] = (None, [])"
| "probe_ports sh p t (q # qs) =
     (case sh (curl_command q t) probe_timeout of
        Stdout out \<Rightarrow>
          if trim out = ''200''
          then (Some \<lparr>pid = p, token = t, port = q\<rparr>, [Exec (curl_command q t) probe_timeout])
          else (case probe_ports sh p t qs of
                  (r, es) \<Rightarrow> (r, Exec (curl_command q t) probe_timeout # es))
      | Threw \<Rightarrow>
          (case probe_ports sh p t qs of
             (r, es) \<Rightarrow> (r, Exec (curl_command q t) probe_timeout # es)))"

text \<open>
  The first part of \<^verbatim>\<open>discoverServer\<close>, up to the list of candidate ports. Each
  \<^verbatim>\<open>return null\<close> of the source (and the outer \<^verbatim>\<open>catch\<close>) is tagged with the place it is
  at; \<open>discoverServer\<close> below forgets the tag.
\<close>

datatype miss = NoProcess | NoPid | NoToken | NoPorts

definition candidates :: "shell \<Rightarrow> (miss + string \<times> string \<times> string list) \<times> effect list" where
  "candidates sh =
     (case sh ps_command discovery_timeout of
        Threw \<Rightarrow> (Inl NoProcess, [Exec ps_command discovery_timeout])
      | Stdout out \<Rightarrow>
         (let psOutput = trim out in
          if psOutput = [] then (Inl NoProcess, [Exec ps_command discovery_timeout])
          else
           (let firstLine = hd (split_lines psOutput);
                parts = split_ws (trim firstLine)
            in (case index parts 1 of
                  None \<Rightarrow> (Inl NoPid, [Exec ps_command discovery_timeout])
                | Some p \<Rightarrow>
                   (if p = [] \<or> parseInt_isNaN p
                    then (Inl NoPid, [Exec ps_command discovery_timeout])
                    else
                     (case match_token firstLine of
                        None \<Rightarrow> (Inl NoToken, [Exec ps_command discovery_timeout])
                      | Some t \<Rightarrow>
                         (let es = [Exec ps_command discovery_timeout,
                                    Exec (lsof_command p) discovery_timeout]
                          in (case sh (lsof_command p) discovery_timeout of
                                Threw \<Rightarrow> (Inl NoPorts, es)
                              | Stdout lout \<Rightarrow>
                                 (let lsofOutput = trim lout in
                                  if lsofOutput = [] then (Inl NoPorts, es)
                                  else
                                   (let ports = collect_ports (split_lines lsofOutput) in
                                    if ports = [] then (Inl NoPorts, es)
                                    else (Inr (p, t, ports), es)))))))))))"

definition discoverServer :: "shell \<Rightarrow> ServerInfo option \<times> effect list" where
  "discoverServer sh =
     (case candidates sh of
        (Inl m, es) \<Rightarrow> (None, es)
      | (Inr (p, t, ports), es) \<Rightarrow>
          (case probe_ports sh p t ports of (r, es') \<Rightarrow> (r, es @ es')))"

section \<open>JSON values\<close>

text \<open>
  What \<^verbatim>\<open>JSON.parse\<close> returns. An object keeps its members in the order read. Numbers
  are kept as integers only: no property below depends on the value of a number.
\<close>

datatype json =
    JNull
  | JBool bool
  | JNum int
  | JStr string
  | JArr "json list"
  | JObj "(string \<times> json) list"

text \<open>JavaScript truthiness of a parsed value, as tested by \<^verbatim>\<open>if (data)\<close> and \<^verbatim>\<open>!data\<close>.\<close>

fun truthy :: "json \<Rightarrow> bool" where
  "truthy JNull = False"
| "truthy (JBool b) = b"
| "truthy (JNum n) = (n \<noteq> 0)"
| "truthy (JStr s) = (s \<noteq> [])"
| "truthy (JArr xs) = True"
| "truthy (JObj ms) = True"

text \<open>
  The top-level shape declared by \<^verbatim>\<open>interface MetricsResponse { userStatus: UserStatus }\<close>:
  an object with a member \<^verbatim>\<open>userStatus\<close>.
\<close>

fun has_userStatus :: "json \<Rightarrow> bool" where
  "has_userStatus (JObj ms) = (''userStatus'' \<in> set (map fst ms))"
| "has_userStatus j = False"

text \<open>
  \<^verbatim>\<open>JSON.parse\<close> belongs to the platform and is a parameter of the client's model
  (\<open>None\<close> when it throws). The reader below is used only where a concrete body is
  evaluated: it reads objects, arrays, strings without escapes, integers and the three
  literals, and rejects everything else, also the valid JSON it does not cover (fractions,
  exponents, escapes). On the bodies evaluated below it agrees with \<^verbatim>\<open>JSON.parse\<close>.
\<close>

type_synonym json_parser = "string \<Rightarrow> json option"

definition json_ws :: "char \<Rightarrow> bool" where
  "json_ws c = (c \<in> {CHR 0x20, CHR 0x09, CHR 0x0A, CHR 0x0D})"

definition skip_ws :: "string \<Rightarrow> string" where
  "skip_ws s = dropWhile json_ws s"

text \<open>The characters of a string up to the closing quote; no escapes, no control characters.\<close>

fun read_string :: "string \<Rightarrow> (string \<times> string) option" where
  "read_string [] = None"
| "read_string (c # cs) =
     (if c = CHR 0x22 then Some ([], cs)
      else if c = CHR 0x5C \<or> (of_char c :: nat) < 32 then None
      else (case read_string cs of None \<Rightarrow> None | Some (s, r) \<Rightarrow> Some (c # s, r)))"

definition digits_value :: "string \<Rightarrow> nat" where
  "digits_value ds = foldl (\<lambda>n c. 10 * n + ((of_char c :: nat) - 48)) 0 ds"

text \<open>An integer \<^verbatim>\<open>-?(0|[1-9][0-9]*)\<close>.\<close>

definition read_int :: "string \<Rightarrow> (int \<times> string) option" where
  "read_int s =
     (let neg = (s \<noteq> [] \<and> hd s = CHR ''-'');
          t = (if neg then tl s else s);
          ds = takeWhile is_digit t;
          r = dropWhile is_digit t
      in if ds = [] \<or> (hd ds = CHR ''0'' \<and> length ds > 1) then None
         else Some ((if neg then - int (digits_value ds) else int (digits_value ds)), r))"

definition read_literal :: "string \<Rightarrow> (json \<times> string) option" where
  "read_literal s =
     (if take 4 s = ''null'' then Some (JNull, drop 4 s)
      else if take 4 s = ''true'' then Some (JBool True, drop 4 s)
      else if take 5 s = ''false'' then Some (JBool False, drop 5 s)
      else (case read_int s of None \<Rightarrow> None | Some (n, r) \<Rightarrow> Some (JNum n, r)))"

fun read_value :: "nat \<Rightarrow> string \<Rightarrow> (json \<times> string) option"
  and read_elements :: "nat \<Rightarrow> string \<Rightarrow> (json list \<times> string) option"
  and read_members :: "nat \<Rightarrow> string \<Rightarrow> ((string \<times> json) list \<times> string) option" where
  "read_value 0 s = None"
| "read_value (Suc n) s =
     (case skip_ws s of
        [] \<Rightarrow> None
      | c # r \<Rightarrow>
          if c = CHR ''['' then
            (case skip_ws r of
               [] \<Rightarrow> None
             | d # r' \<Rightarrow>
                 if d = CHR '']'' then Some (JArr [], r')
                 else (case read_elements n r of None \<Rightarrow> None | Some (vs, r'') \<Rightarrow> Some (JArr vs, r'')))
          else if c = CHR ''{'' then
            (case skip_ws r of
               [] \<Rightarrow> None
             | d # r' \<Rightarrow>
                 if d = CHR ''}'' then Some (JObj [], r')
                 else (case read_members n r of None \<Rightarrow> None | Some (ms, r'') \<Rightarrow> Some (JObj ms, r'')))
          else if c = CHR 0x22 then
            (case read_string r of None \<Rightarrow> None | Some (str, r') \<Rightarrow> Some (JStr str, r'))
          else read_literal (c # r))"
| "read_elements 0 s = None"
| "read_elements (Suc n) s =
     (case read_value n s of
        None \<Rightarrow> None
      | Some (v, r) \<Rightarrow>
          (case skip_ws r of
             [] \<Rightarrow> None
           | c # r' \<Rightarrow>
               if c = CHR '']'' then Some ([v], r')
               else if c = CHR '','' then
                 (case read_elements n r' of None \<Rightarrow> None | Some (vs, r'') \<Rightarrow> Some (v # vs, r''))
               else None))"
| "read_members 0 s = None"
| "read_members (Suc n) s =
     (case skip_ws s of
        [] \<Rightarrow> None
      | q # r0 \<Rightarrow>
          if q \<noteq> CHR 0x22 then None
          else
            (case read_string r0 of
               None \<Rightarrow> None
             | Some (k, r1) \<Rightarrow>
                 (case skip_ws r1 of
                    [] \<Rightarrow> None
                  | c # r2 \<Rightarrow>
                      if c \<noteq> CHR '':'' then None
                      else
                        (case read_value n r2 of
                           None \<Rightarrow> None
                         | Some (v, r3) \<Rightarrow>
                             (case skip_ws r3 of
                                [] \<Rightarrow> None
                              | e # r4 \<Rightarrow>
                                  if e = CHR ''}'' then Some ([(k, v)], r4)
                                  else if e = CHR '','' then
                                    (case read_members n r4 of
                                       None \<Rightarrow> None
                                     | Some (ms, r5) \<Rightarrow> Some ((k, v) # ms, r5))
                                  else None)))))"

definition read_json :: json_parser where
  "read_json s =
     (case read_value (2 * length s + 2) s of
        None \<Rightarrow> None
      | Some (v, r) \<Rightarrow> if skip_ws r = [] then Some v else None)"

section \<open>Fetching the metrics\<close>

text \<open>
  The promise returned by \<^verbatim>\<open>fetchMetrics\<close> is settled at most once: by \<^verbatim>\<open>resolve\<close>
  with a value or by \<^verbatim>\<open>reject\<close> (or a \<^verbatim>\<open>throw\<close> in the async function) with an
  \<^verbatim>\<open>Error\<close>, of which the message is kept. \<open>None\<close> is a promise still pending.
\<close>

datatype settlement = Resolved json | Rejected string

definition not_found_message :: string where
  "not_found_message = ''Could not find Antigravity Language Server. Make sure the IDE is running.''"

definition parse_failure_message :: string where
  "parse_failure_message = ''Failed to parse metrics response''"

definition timeout_message :: string where
  "timeout_message = ''Request timed out''"

definition fetch_error_message :: "string \<Rightarrow> string" where
  "fetch_error_message cause = ''Failed to fetch metrics: '' @ cause"

definition fetch_timeout :: nat where
  "fetch_timeout = 10000"

text \<open>
  What the HTTP client of the platform reports for one request, in order: the response
  head with its status, chunks of the body, the end of the body, a socket error with its
  message, and the expiry of the timer set with \<^verbatim>\<open>req.setTimeout\<close>.
\<close>

datatype http_event =
    Response nat
  | Data string
  | End
  | SocketError string
  | Timeout

type_synonym network = "request \<Rightarrow> nat \<Rightarrow> http_event list"

record exchange =
  responding :: bool
  received :: string
  settled :: "settlement option"
  destroyed :: bool

definition settle :: "settlement \<Rightarrow> exchange \<Rightarrow> exchange" where
  "settle r x = (if settled x = None then x\<lparr>settled := Some r\<rparr> else x)"

text \<open>
  The handlers registered by \<^verbatim>\<open>fetchMetrics\<close>. The response callback starts with an
  empty \<^verbatim>\<open>data\<close> and registers the \<^verbatim>\<open>data\<close> and \<^verbatim>\<open>end\<close> handlers; it does not read
  the status.
\<close>

fun handle :: "json_parser \<Rightarrow> exchange \<Rightarrow> http_event \<Rightarrow> exchange" where
  "handle P x (Response status) = x\<lparr>responding := True, received := []\<rparr>"
| "handle P x (Data chunk) =
     (if responding x then x\<lparr>received := received x @ chunk\<rparr> else x)"
| "handle P x End =
     (if responding x then
        (case P (received x) of
           Some parsed \<Rightarrow> settle (Resolved parsed) x
         | None \<Rightarrow> settle (Rejected parse_failure_message) x)
      else x)"
| "handle P x (SocketError m) = settle (Rejected (fetch_error_message m)) x"
| "handle P x Timeout = settle (Rejected timeout_message) (x\<lparr>destroyed := True\<rparr>)"

definition request_sent :: exchange where
  "request_sent = \<lparr>responding = False, received = [], settled = None, destroyed = False\<rparr>"

definition run_exchange :: "json_parser \<Rightarrow> http_event list \<Rightarrow> exchange" where
  "run_exchange P evs = foldl (handle P) request_sent evs"

definition postData :: string where
  \<open>postData = ''{"metadata":{"ideName":"antigravity","extensionName":"quota-monitor","locale":"en"}}''\<close>

definition metrics_path :: string where
  "metrics_path = ''/exa.language_server_pb.LanguageServerService/GetUserStatus''"

fun show_nat :: "nat \<Rightarrow> string" where
  "show_nat n =
     (if n < 10 then [char_of (48 + n)]
      else show_nat (n div 10) @ [char_of (48 + n mod 10)])"

text \<open>
  The request built by \<^verbatim>\<open>fetchMetrics\<close>. Its port passed the probe and its token is made of
  letters, digits and hyphens, so \<^verbatim>\<open>http.request\<close> accepts the options.
\<close>

definition metrics_request :: "ServerInfo \<Rightarrow> request" where
  "metrics_request serverInfo =
     \<lparr>hostname = ''127.0.0.1'',
      req_port = port serverInfo,
      path = metrics_path,
      req_method = ''POST'',
      headers =
        [(''X-Codeium-Csrf-Token'', token serverInfo),
         (''Connect-Protocol-Version'', ''1''),
         (''Content-Type'', ''application/json''),
         (''Content-Length'', show_nat (length postData))],
      body = postData\<rparr>"

record fetched =
  promise :: "settlement option"
  socket_destroyed :: bool
  effects :: "effect list"

definition fetchMetrics :: "json_parser \<Rightarrow> shell \<Rightarrow> network \<Rightarrow> fetched" where
  "fetchMetrics P sh net =
     (case discoverServer sh of
        (None, es) \<Rightarrow>
          \<lparr>promise = Some (Rejected not_found_message), socket_destroyed = False, effects = es\<rparr>
      | (Some serverInfo, es) \<Rightarrow>
          (let req = metrics_request serverInfo;
               x = run_exchange P (net req fetch_timeout)
           in \<lparr>promise = settled x, socket_destroyed = destroyed x,
               effects = es @ [Http req fetch_timeout]\<rparr>))"

section \<open>The extension: refreshing the views\<close>

text \<open>
  The HTML templates of the two views are not modelled: a view shows one of four pages.
  Building the data page reads fields of the snapshot and throws a \<^verbatim>\<open>TypeError\<close> when
  one is missing; which snapshots make a template throw, and with what message, is a
  parameter.
\<close>

datatype page = LoadingPage | ErrorPage string | WelcomePage | DataPage json

type_synonym template = "json \<Rightarrow> string option"

record sidebar =
  view :: "page option"
  metricsData :: json
  error :: "string option"
  isLoading :: bool
  lastRefreshTime :: "int option"

datatype notification = Information string | ErrorMessage string

record extension =
  cachedData :: json
  sidebarProvider :: sidebar
  webviewPanel :: "page option"
  notifications :: "notification list"

text \<open>
  \<^verbatim>\<open>_getHtmlContent\<close> and \<^verbatim>\<open>_updateView\<close> of the sidebar: \<open>Inl\<close> is the message of the
  error thrown by the data template; without a resolved view nothing is built. An error
  message is shown when it is a non-empty string (\<^verbatim>\<open>if (this._error)\<close>).
\<close>

definition shown_error :: "string option \<Rightarrow> string option" where
  "shown_error e = (case e of None \<Rightarrow> None | Some m \<Rightarrow> if m = [] then None else Some m)"

definition sidebar_content :: "template \<Rightarrow> sidebar \<Rightarrow> string + page" where
  "sidebar_content T s =
     (if isLoading s then Inr LoadingPage
      else (case shown_error (error s) of
              Some m \<Rightarrow> Inr (ErrorPage m)
            | None \<Rightarrow>
                if \<not> truthy (metricsData s) then Inr WelcomePage
                else (case T (metricsData s) of
                        Some thrown \<Rightarrow> Inl thrown
                      | None \<Rightarrow> Inr (DataPage (metricsData s)))))"

definition updateView :: "template \<Rightarrow> sidebar \<Rightarrow> string option \<times> sidebar" where
  "updateView T s =
     (case view s of
        None \<Rightarrow> (None, s)
      | Some old \<Rightarrow>
          (case sidebar_content T s of
             Inl m \<Rightarrow> (Some m, s)
           | Inr pg \<Rightarrow> (None, s\<lparr>view := Some pg\<rparr>)))"

definition setLoading :: "template \<Rightarrow> sidebar \<Rightarrow> string option \<times> sidebar" where
  "setLoading T s = updateView T (s\<lparr>isLoading := True, error := None\<rparr>)"

text \<open>
  \<^verbatim>\<open>refresh(data?, error?, lastRefreshTime?)\<close>; an absent \<^verbatim>\<open>data\<close> is \<open>JNull\<close>.
\<close>

definition refresh :: "template \<Rightarrow> json \<Rightarrow> string option \<Rightarrow> int option \<Rightarrow> sidebar \<Rightarrow> string option \<times> sidebar" where
  "refresh T d e t s =
     updateView T
       (s\<lparr>metricsData := d, error := e, isLoading := False,
          lastRefreshTime := (case t of None \<Rightarrow> lastRefreshTime s | Some u \<Rightarrow> Some u)\<rparr>)"

text \<open>\<^verbatim>\<open>updateContent(data, error?)\<close> of the details panel.\<close>

definition panel_content :: "template \<Rightarrow> json \<Rightarrow> string option \<Rightarrow> string + page" where
  "panel_content T d e =
     (case shown_error e of
        Some m \<Rightarrow> Inr (ErrorPage m)
      | None \<Rightarrow>
          if \<not> truthy d then Inr LoadingPage
          else (case T d of Some thrown \<Rightarrow> Inl thrown | None \<Rightarrow> Inr (DataPage d)))"

text \<open>
  The \<^verbatim>\<open>catch\<close> block of \<^verbatim>\<open>refreshData\<close>. The error pages are built without reading a
  snapshot.
\<close>

definition refresh_failed :: "template \<Rightarrow> template \<Rightarrow> string \<Rightarrow> extension \<Rightarrow> extension" where
  "refresh_failed S W errorMessage st =
     (let st1 = st\<lparr>sidebarProvider := snd (refresh S JNull (Some errorMessage) None (sidebarProvider st))\<rparr>;
          st2 = (case webviewPanel st1 of
                   None \<Rightarrow> st1
                 | Some old \<Rightarrow>
                     (case panel_content W JNull (Some errorMessage) of
                        Inl m \<Rightarrow> st1
                      | Inr pg \<Rightarrow> st1\<lparr>webviewPanel := Some pg\<rparr>))
      in st2\<lparr>notifications := notifications st2 @ [ErrorMessage (''Failed to refresh: '' @ errorMessage)]\<rparr>)"

text \<open>
  \<^verbatim>\<open>refreshData\<close>, given the promise awaited (\<open>None\<close>: the \<^verbatim>\<open>await\<close> never returns) and
  the time of the refresh.
\<close>

definition refreshData :: "template \<Rightarrow> template \<Rightarrow> int \<Rightarrow> settlement option \<Rightarrow> extension \<Rightarrow> extension" where
  "refreshData S W now awaited st =
     (let st0 = st\<lparr>sidebarProvider := snd (setLoading S (sidebarProvider st))\<rparr> in
      case awaited of
        None \<Rightarrow> st0
      | Some (Rejected m) \<Rightarrow> refresh_failed S W m st0
      | Some (Resolved d) \<Rightarrow>
         (let st1 = st0\<lparr>cachedData := d\<rparr>;
              (thrown, sb) = refresh S d None (Some now) (sidebarProvider st1);
              st2 = st1\<lparr>sidebarProvider := sb\<rparr>
          in case thrown of
               Some m \<Rightarrow> refresh_failed S W m st2
             | None \<Rightarrow>
                (if webviewPanel st2 \<noteq> None \<and> truthy d then
                   (case panel_content W d None of
                      Inl m \<Rightarrow> refresh_failed S W m st2
                    | Inr pg \<Rightarrow>
                        st2\<lparr>webviewPanel := Some pg,
                            notifications := notifications st2 @ [Information ''Quota data refreshed successfully!'']\<rparr>)
                 else st2\<lparr>notifications := notifications st2 @ [Information ''Quota data refreshed successfully!'']\<rparr>)))"

section \<open>Formatting the reset time\<close>

text \<open>
  A JavaScript number here is \<^verbatim>\<open>NaN\<close> or an integer (times in milliseconds and their
  quotients). Every comparison with \<^verbatim>\<open>NaN\<close> is false and every operation on it is
  \<^verbatim>\<open>NaN\<close>. \<^verbatim>\<open>Date\<close> parsing belongs to the platform and is a parameter: \<open>None\<close> for a
  text that is not a date, whose \<^verbatim>\<open>getTime()\<close> is \<^verbatim>\<open>NaN\<close>.
\<close>

datatype number = NaN | Num int

fun minus_number :: "number \<Rightarrow> number \<Rightarrow> number" where
  "minus_number (Num a) (Num b) = Num (a - b)"
| "minus_number a b = NaN"

fun le_number :: "number \<Rightarrow> number \<Rightarrow> bool" where
  "le_number (Num a) (Num b) = (a \<le> b)"
| "le_number a b = False"

fun gt_number :: "number \<Rightarrow> number \<Rightarrow> bool" where
  "gt_number (Num a) (Num b) = (a > b)"
| "gt_number a b = False"

text \<open>\<^verbatim>\<open>Math.floor(a / d)\<close> for a positive constant \<open>d\<close>.\<close>

fun floor_div :: "number \<Rightarrow> int \<Rightarrow> number" where
  "floor_div (Num a) d = Num (a div d)"
| "floor_div NaN d = NaN"

text \<open>\<^verbatim>\<open>a % d\<close>: the remainder has the sign of the dividend.\<close>

fun rem_number :: "number \<Rightarrow> int \<Rightarrow> number" where
  "rem_number (Num a) d = Num (if a < 0 then - ((- a) mod d) else a mod d)"
| "rem_number NaN d = NaN"

fun show_number :: "number \<Rightarrow> string" where
  "show_number NaN = ''NaN''"
| "show_number (Num a) = (if a < 0 then ''-'' @ show_nat (nat (- a)) else show_nat (nat a))"

type_synonym date_parser = "string \<Rightarrow> int option"

definition getTime :: "date_parser \<Rightarrow> string \<Rightarrow> number" where
  "getTime D s = (case D s of None \<Rightarrow> NaN | Some t \<Rightarrow> Num t)"

definition formatResetTime :: "date_parser \<Rightarrow> int \<Rightarrow> string \<Rightarrow> string" where
  "formatResetTime D now resetTime =
     (let diffMs = minus_number (getTime D resetTime) (Num now) in
      if le_number diffMs (Num 0) then ''resetting...''
      else
       (let diffMins = floor_div diffMs 60000;
            diffHours = floor_div diffMins 60;
            diffDays = floor_div diffHours 24
        in if gt_number diffDays (Num 0)
           then show_number diffDays @ ''d '' @ show_number (rem_number diffHours 24) @ ''h''
           else if gt_number diffHours (Num 0)
           then show_number diffHours @ ''h '' @ show_number (rem_number diffMins 60) @ ''m''
           else show_number diffMins @ ''m''))"

section \<open>Conditions of the discovery\<close>

text \<open>
  The four ways in which the discovery finds nothing, in terms of what the shell prints.
  The process line is the first line of the trimmed \<^verbatim>\<open>ps\<close> output; the process id handed
  to \<^verbatim>\<open>lsof\<close> is its second field.
\<close>

definition no_matching_process :: "shell \<Rightarrow> bool" where
  "no_matching_process sh =
     (case sh ps_command discovery_timeout of
        Threw \<Rightarrow> True
      | Stdout out \<Rightarrow> trim out = [])"

definition no_extractable_token :: "shell \<Rightarrow> bool" where
  "no_extractable_token sh =
     (case sh ps_command discovery_timeout of
        Threw \<Rightarrow> False
      | Stdout out \<Rightarrow> trim out \<noteq> [] \<and> match_token (hd (split_lines (trim out))) = None)"

definition no_listening_ports :: "shell \<Rightarrow> bool" where
  "no_listening_ports sh =
     (case sh ps_command discovery_timeout of
        Threw \<Rightarrow> False
      | Stdout out \<Rightarrow>
          trim out \<noteq> [] \<and>
          (case index (split_ws (trim (hd (split_lines (trim out))))) 1 of
             None \<Rightarrow> False
           | Some p \<Rightarrow>
               (case sh (lsof_command p) discovery_timeout of
                  Threw \<Rightarrow> True
                | Stdout lout \<Rightarrow> collect_ports (split_lines (trim lout)) = [])))"

definition no_port_answers :: "shell \<Rightarrow> bool" where
  "no_port_answers sh =
     (case fst (candidates sh) of
        Inl m \<Rightarrow> False
      | Inr (p, t, ports) \<Rightarrow> list_all (\<lambda>q. \<not> responds_200 sh t q) ports)"

text \<open>The record of one probe, and an exchange with the status of its responses replaced.\<close>

definition probe :: "string \<Rightarrow> string \<Rightarrow> effect" where
  "probe t q = Exec (curl_command q t) probe_timeout"

fun with_status :: "nat \<Rightarrow> http_event \<Rightarrow> http_event" where
  "with_status st (Response st') = Response st"
| "with_status st e = e"

section \<open>A sample host\<close>

text \<open>
  A host with one language server, process 4321, token \<^verbatim>\<open>7f3a-b2c1\<close>, listening on three
  loopback ports. The answers of \<^verbatim>\<open>ps\<close>, of \<^verbatim>\<open>lsof\<close> and of the probes are given; any other
  command fails.
\<close>

definition ps_line :: string where
  "ps_line = ''ayan  4321  0.0  0.1 /Applications/Antigravity.app/language_server_macos_arm --csrf_token 7f3a-b2c1 --workspace_id ws''"

definition ps_line_no_token :: string where
  "ps_line_no_token = ''ayan  4321  0.0  0.1 /Applications/Antigravity.app/language_server_macos_arm --csrf_token=7f3a-b2c1''"

definition lsof_lines :: string where
  "lsof_lines =
     ''language_ 4321 ayan 10u IPv4 0x1 0t0 TCP 127.0.0.1:42099 (LISTEN)'' @ [CHR 0x0A] @
     ''language_ 4321 ayan 11u IPv4 0x2 0t0 TCP 127.0.0.1:42100 (LISTEN)'' @ [CHR 0x0A] @
     ''language_ 4321 ayan 12u IPv4 0x3 0t0 TCP 127.0.0.1:42101 (LISTEN)'' @ [CHR 0x0A]"

definition host :: "exec_result \<Rightarrow> exec_result \<Rightarrow> (string \<times> exec_result) list \<Rightarrow> shell" where
  "host ps lsof probes cmd limit =
     (if cmd = ps_command then ps
      else if cmd = lsof_command ''4321'' then lsof
      else (case find (\<lambda>(q, r). cmd = curl_command q ''7f3a-b2c1'') probes of
              Some (q, r) \<Rightarrow> r
            | None \<Rightarrow> Threw))"

text \<open>
  The usual host: the first port refuses the connection (\<^verbatim>\<open>curl\<close> fails), the second
  answers 404, the third answers 200.
\<close>

definition sample_host :: shell where
  "sample_host =
     host (Stdout (ps_line @ [CHR 0x0A])) (Stdout lsof_lines)
       [(''42099'', Threw), (''42100'', Stdout ''404''), (''42101'', Stdout ''200'')]"

definition sample_server :: ServerInfo where
  "sample_server = \<lparr>pid = ''4321'', token = ''7f3a-b2c1'', port = ''42101''\<rparr>"

text \<open>A server that answers the metrics call with the given status and body.\<close>

definition answering :: "nat \<Rightarrow> string \<Rightarrow> network" where
  "answering status b req limit = [Response status, Data b, End]"

text \<open>Two bodies: a snapshot, and the error object of a failed call.\<close>

definition snapshot_body :: string where
  \<open>snapshot_body = ''{"userStatus":{"name":"Ann"}}''\<close>

definition error_body :: string where
  \<open>error_body = ''{"code":"internal"}''\<close>

text \<open>The values of \<^verbatim>\<open>Date.parse\<close> used in the examples.\<close>

definition sample_dates :: date_parser where
  "sample_dates s = (if s = ''2025-01-01T00:00:00Z'' then Some 1735689600000 else None)"

definition empty_sidebar :: sidebar where
  "empty_sidebar =
     \<lparr>view = Some WelcomePage, metricsData = JNull, error = None, isLoading = False,
      lastRefreshTime = None\<rparr>"

text \<open>A server that closes the connection on the metrics call, and one that stalls.\<close>

definition failing :: "string \<Rightarrow> network" where
  "failing cause req limit = [SocketError cause]"


text \<open>
  Hosts on which the discovery finds nothing: no process, a process whose token is not
  written as the pattern expects, a process without loopback ports, and a process none of
  whose ports answers 200.
\<close>

definition idle_host :: shell where
  "idle_host = host Threw Threw []"

definition tokenless_host :: shell where
  "tokenless_host = host (Stdout ps_line_no_token) Threw []"

definition portless_host :: shell where
  "portless_host = host (Stdout ps_line) Threw []"

definition deaf_host :: shell where
  "deaf_host =
     host (Stdout (ps_line @ [CHR 0x0A])) (Stdout lsof_lines)
       [(''42099'', Threw), (''42100'', Stdout ''404'')]"

definition sample_extension :: extension where
  "sample_extension =
     \<lparr>cachedData = JObj [(''userStatus'', JObj [(''name'', JStr ''Ann'')])],
      sidebarProvider = empty_sidebar, webviewPanel = None, notifications = []\<rparr>"

section \<open>The timer of the request\<close>

text \<open>
  The timer set with \<^verbatim>\<open>req.setTimeout\<close> belongs to the platform: it expires when the socket
  has seen no activity for the given time, and measures nothing else. An exchange is given
  here by what the server sends, each item with the milliseconds the socket was idle before
  it. The platform reports the items in order until one comes too late, when it reports the
  expiry instead; the end of the body or a socket error closes the exchange; when the
  server sends nothing more, the socket stays idle and the timer expires.
\<close>

type_synonym arrival = "nat \<times> http_event"

fun closes :: "http_event \<Rightarrow> bool" where
  "closes End = True"
| "closes (SocketError m) = True"
| "closes e = False"

fun idle_timer :: "nat \<Rightarrow> arrival list \<Rightarrow> http_event list" where
  "idle_timer limit [] = [Timeout]"
| "idle_timer limit ((gap, e) # rest) =
     (if limit \<le> gap then [Timeout]
      else if closes e then [e]
      else e # idle_timer limit rest)"

definition timed :: "arrival list \<Rightarrow> network" where
  "timed arrivals req limit = idle_timer limit arrivals"



section \<open>A template that throws\<close>

text \<open>
  The data pages read \<^verbatim>\<open>data.userStatus.cascadeModelConfigData\<close> first: on a snapshot
  without \<^verbatim>\<open>userStatus\<close> the templates throw this \<^verbatim>\<open>TypeError\<close>.
\<close>

definition type_error_message :: string where
  "type_error_message = ''Cannot read properties of undefined (reading 'cascadeModelConfigData')''"

definition strict_template :: template where
  "strict_template j = (if has_userStatus j then None else Some type_error_message)"

section \<open>The port loop of the shell script\<close>

text \<open>
  \<^verbatim>\<open>fetch_metrics.sh\<close> probes the ports with the same request. \<^verbatim>\<open>curl\<close> gives the text
  captured in \<^verbatim>\<open>RESPONSE\<close> for a port; the loop returns \<^verbatim>\<open>FINAL_PORT\<close> (empty when no
  port answered) and the ports probed.
\<close>

fun port_loop :: "(string \<Rightarrow> string) \<Rightarrow> string list \<Rightarrow> string \<times> string list" where
  "port_loop curl [] = ([], [])"
| "port_loop curl (q # qs) =
     (if curl q = ''200'' then (q, [q])
      else (case port_loop curl qs of (final, probed) \<Rightarrow> (final, q # probed)))"

section \<open>Properties of the probing loop\<close>

lemma probe_ports_found:
  assumes "\<forall>q\<in>set pre. \<not> responds_200 sh t q" and "responds_200 sh t p"
  shows "probe_ports sh pd t (pre @ p # post) =
           (Some \<lparr>pid = pd, token = t, port = p\<rparr>, map (probe t) (pre @ [p]))"
  using assms
  by (induction pre) (auto simp: responds_200_def probe_def split: exec_result.splits)

lemma probe_ports_none:
  assumes "\<forall>q\<in>set qs. \<not> responds_200 sh t q"
  shows "probe_ports sh pd t qs = (None, map (probe t) qs)"
  using assms
  by (induction qs) (auto simp: responds_200_def probe_def split: exec_result.splits)

lemma probe_ports_Some:
  assumes "probe_ports sh pd t qs = (Some i, es)"
  shows "i = \<lparr>pid = pd, token = t, port = port i\<rparr> \<and> port i \<in> set qs
         \<and> responds_200 sh t (port i) \<and> (\<exists>es0. es = es0 @ [probe t (port i)])"
  using assms
proof (induction qs arbitrary: es)
  case Nil
  then show ?case by simp
next
  case (Cons q qs)
  show ?case
  proof (cases "responds_200 sh t q")
    case True
    with Cons.prems show ?thesis
      by (auto simp: responds_200_def probe_def split: exec_result.splits)
  next
    case False
    obtain r es' where r: "probe_ports sh pd t qs = (r, es')"
      by (cases "probe_ports sh pd t qs")
    with False Cons.prems have "r = Some i" "es = probe t q # es'"
      by (auto simp: responds_200_def probe_def split: exec_result.splits if_splits)
    with r Cons.IH[of es'] show ?thesis by auto
  qed
qed

lemma probe_ports_effects:
  "\<exists>qs. snd (probe_ports sh pd t ports) = map (probe t) qs"
proof (cases "\<exists>p\<in>set ports. responds_200 sh t p")
  case True
  then obtain pre p post where
    "ports = pre @ p # post" "responds_200 sh t p" "\<forall>q\<in>set pre. \<not> responds_200 sh t q"
    by (metis split_list_first_prop)
  with probe_ports_found[of pre sh t p pd post]
  have "snd (probe_ports sh pd t ports) = map (probe t) (pre @ [p])" by simp
  then show ?thesis by blast
next
  case False
  with probe_ports_none[of ports sh t pd] show ?thesis by auto
qed

lemma first_occurrence:
  assumes "p \<in> set ports"
  shows "\<exists>post. ports = takeWhile (\<lambda>q. q \<noteq> p) ports @ p # post"
proof -
  from assms obtain ys zs where s: "ports = ys @ p # zs" "p \<notin> set ys"
    by (meson split_list_first)
  then have "takeWhile (\<lambda>q. q \<noteq> p) ys = ys"
    by auto
  with s have "takeWhile (\<lambda>q. q \<noteq> p) ports = ys"
    by (simp add: takeWhile_tail)
  with s show ?thesis by auto
qed

lemma port_loop_found:
  assumes "\<forall>q\<in>set pre. curl q \<noteq> ''200''" and "curl p = ''200''"
  shows "port_loop curl (pre @ p # post) = (p, pre @ [p])"
  using assms by (induction pre) auto

section \<open>Properties of the discovery\<close>

lemma discoverServer_candidates:
  assumes "fst (candidates sh) = Inr (pd, t, ports)"
  shows "discoverServer sh =
           (fst (probe_ports sh pd t ports), snd (candidates sh) @ snd (probe_ports sh pd t ports))"
  using assms by (cases "candidates sh") (simp add: discoverServer_def split: prod.splits)

lemma discoverServer_Inl:
  "fst (candidates sh) = Inl m \<Longrightarrow>
     fst (discoverServer sh) = None \<and> snd (discoverServer sh) = snd (candidates sh)"
  by (cases "candidates sh") (simp add: discoverServer_def)

lemma discoverServer_Some:
  assumes "discoverServer sh = (Some i, es)"
  shows "\<exists>ports es0 es1. candidates sh = (Inr (pid i, token i, ports), es0)
           \<and> probe_ports sh (pid i) (token i) ports = (Some i, es1) \<and> es = es0 @ es1"
proof -
  obtain c es0 where c: "candidates sh = (c, es0)" by (cases "candidates sh")
  show ?thesis
  proof (cases c)
    case (Inl m)
    with c assms show ?thesis by (simp add: discoverServer_def)
  next
    case (Inr x)
    obtain pd t ports where x: "x = (pd, t, ports)" by (cases x)
    obtain r es1 where r: "probe_ports sh pd t ports = (r, es1)"
      by (cases "probe_ports sh pd t ports")
    from c Inr x r assms have ri: "r = Some i" and es: "es = es0 @ es1"
      by (simp_all add: discoverServer_def)
    from r ri probe_ports_Some[of sh pd t ports i es1]
    have "i = \<lparr>pid = pd, token = t, port = port i\<rparr>" by simp
    then have "pid i = pd" "token i = t"
      by (metis ServerInfo.select_convs(1), metis ServerInfo.select_convs(2))
    with c Inr x r ri es show ?thesis by auto
  qed
qed

lemma candidates_Inr_effects:
  "candidates sh = (Inr (pd, t, ports), es) \<Longrightarrow>
     es = [Exec ps_command discovery_timeout, Exec (lsof_command pd) discovery_timeout]"
  by (auto simp: candidates_def Let_def split: exec_result.splits option.splits if_splits)

lemma candidates_no_process:
  "no_matching_process sh \<Longrightarrow> \<exists>m. fst (candidates sh) = Inl m"
  by (auto simp: no_matching_process_def candidates_def split: exec_result.splits)

lemma candidates_no_token:
  "no_extractable_token sh \<Longrightarrow> \<exists>m. fst (candidates sh) = Inl m"
  by (auto simp: no_extractable_token_def candidates_def Let_def
      split: exec_result.splits option.splits)

lemma candidates_no_ports:
  "no_listening_ports sh \<Longrightarrow> \<exists>m. fst (candidates sh) = Inl m"
  by (auto simp: no_listening_ports_def candidates_def Let_def
      split: exec_result.splits option.splits)

lemma discoverServer_no_answer:
  assumes "no_port_answers sh"
  shows "fst (discoverServer sh) = None"
proof (cases "fst (candidates sh)")
  case (Inl m)
  then show ?thesis by (simp add: discoverServer_Inl)
next
  case (Inr x)
  obtain pd t ports where x: "x = (pd, t, ports)" by (cases x)
  with Inr assms have "\<forall>q\<in>set ports. \<not> responds_200 sh t q"
    by (simp add: no_port_answers_def list_all_iff)
  from probe_ports_none[OF this, of pd] discoverServer_candidates[of sh pd t ports] Inr x
  show ?thesis by simp
qed

section \<open>Properties of the exchange\<close>

lemma settled_stays:
  "settled x = Some r \<Longrightarrow> settled (foldl (handle P) x evs) = Some r"
proof (induction evs arbitrary: x)
  case Nil
  then show ?case by simp
next
  case (Cons e evs)
  from Cons.prems have "settled (handle P x e) = Some r"
    by (cases e) (auto simp: settle_def split: option.splits)
  then show ?case using Cons.IH by simp
qed


lemma handle_with_status: "handle P x (with_status st e) = handle P x e"
  by (cases e) simp_all

lemma run_with_status:
  "foldl (handle P) x (map (with_status st) evs) = foldl (handle P) x evs"
  by (induction evs arbitrary: x) (simp_all add: handle_with_status)

lemma receive_chunks:
  "responding x \<Longrightarrow>
     foldl (handle P) x (map Data chunks) = x\<lparr>received := received x @ concat chunks\<rparr>"
  by (induction chunks arbitrary: x) simp_all

lemma fetchMetrics_found:
  "fst (discoverServer sh) = Some i \<Longrightarrow>
     fetchMetrics P sh net =
       \<lparr>promise = settled (run_exchange P (net (metrics_request i) fetch_timeout)),
        socket_destroyed = destroyed (run_exchange P (net (metrics_request i) fetch_timeout)),
        effects = snd (discoverServer sh) @ [Http (metrics_request i) fetch_timeout]\<rparr>"
  by (cases "discoverServer sh") (simp add: fetchMetrics_def Let_def)

lemma fetchMetrics_missing:
  "fst (discoverServer sh) = None \<Longrightarrow>
     fetchMetrics P sh net =
       \<lparr>promise = Some (Rejected not_found_message), socket_destroyed = False,
        effects = snd (discoverServer sh)\<rparr>"
  by (cases "discoverServer sh") (simp add: fetchMetrics_def)

lemma answered:
  "fst (discoverServer sh) = Some i \<Longrightarrow>
     promise (fetchMetrics P sh (answering st b)) =
       (case P b of
          None \<Rightarrow> Some (Rejected parse_failure_message)
        | Some parsed \<Rightarrow> Some (Resolved parsed))"
  by (simp add: fetchMetrics_found answering_def run_exchange_def request_sent_def settle_def
      split: option.splits)

section \<open>Properties of the recorded effects\<close>

lemma not_ps_command:
  "lsof_command pd \<noteq> ps_command" "curl_command q t \<noteq> ps_command"
  by (simp_all add: lsof_command_def curl_command_def ps_command_def)

lemma probe_not_ps:
  "filter (\<lambda>e. e = Exec ps_command discovery_timeout) (map (probe t) qs) = []"
  by (induction qs) (simp_all add: probe_def not_ps_command)

lemma probe_not_Http: "Http req limit \<notin> set (map (probe t) qs)"
  by (induction qs) (simp_all add: probe_def)

lemma candidates_not_Http: "Http req limit \<notin> set (snd (candidates sh))"
  by (auto simp: candidates_def Let_def split: exec_result.splits option.splits)

lemma candidates_ps_once:
  "length (filter (\<lambda>e. e = Exec ps_command discovery_timeout) (snd (candidates sh))) = 1"
  by (auto simp: candidates_def Let_def not_ps_command split: exec_result.splits option.splits)

lemma discoverServer_ps_once:
  "length (filter (\<lambda>e. e = Exec ps_command discovery_timeout) (snd (discoverServer sh))) = 1"
proof (cases "fst (candidates sh)")
  case (Inl m)
  then show ?thesis by (simp add: discoverServer_Inl candidates_ps_once)
next
  case (Inr x)
  obtain pd t ports where x: "x = (pd, t, ports)" by (cases x)
  obtain qs where qs: "snd (probe_ports sh pd t ports) = map (probe t) qs"
    using probe_ports_effects by blast
  from discoverServer_candidates[of sh pd t ports] Inr x qs show ?thesis
    by (simp add: candidates_ps_once probe_not_ps)
qed

lemma discoverServer_not_Http: "Http req limit \<notin> set (snd (discoverServer sh))"
proof (cases "fst (candidates sh)")
  case (Inl m)
  then show ?thesis by (simp add: discoverServer_Inl candidates_not_Http)
next
  case (Inr x)
  obtain pd t ports where x: "x = (pd, t, ports)" by (cases x)
  obtain qs where qs: "snd (probe_ports sh pd t ports) = map (probe t) qs"
    using probe_ports_effects by blast
  from discoverServer_candidates[of sh pd t ports] Inr x qs probe_not_Http[of req limit t qs]
  show ?thesis by (simp add: candidates_not_Http)
qed

lemma fetchMetrics_ps_once:
  "length (filter (\<lambda>e. e = Exec ps_command discovery_timeout)
     (effects (fetchMetrics P sh net))) = 1"
proof (cases "fst (discoverServer sh)")
  case None
  then show ?thesis by (simp add: fetchMetrics_missing discoverServer_ps_once)
next
  case (Some i)
  then show ?thesis by (simp add: fetchMetrics_found discoverServer_ps_once)
qed

lemma discoverServer_effects_Some:
  assumes "fst (discoverServer sh) = Some i"
  shows "\<exists>qs. snd (discoverServer sh) =
           Exec ps_command discovery_timeout # Exec (lsof_command (pid i)) discovery_timeout
             # map (probe (token i)) qs @ [probe (token i) (port i)]"
proof -
  from assms have "discoverServer sh = (Some i, snd (discoverServer sh))"
    by (cases "discoverServer sh") simp
  from discoverServer_Some[OF this] obtain ports es0 es1 where
    c: "candidates sh = (Inr (pid i, token i, ports), es0)" and
    p: "probe_ports sh (pid i) (token i) ports = (Some i, es1)" and
    e: "snd (discoverServer sh) = es0 @ es1" by blast
  obtain qs where qs: "es1 = map (probe (token i)) qs"
    using probe_ports_effects[of sh "pid i" "token i" ports] p by auto
  from probe_ports_Some[OF p] obtain es2 where es2: "es1 = es2 @ [probe (token i) (port i)]"
    by blast
  with qs have "qs \<noteq> []" by auto
  then obtain qs' q' where "qs = qs' @ [q']"
    by (cases qs rule: rev_cases) auto
  with qs es2 have "es1 = map (probe (token i)) qs' @ [probe (token i) (port i)]"
    by simp
  with candidates_Inr_effects[OF c] e show ?thesis by auto
qed

section \<open>Properties of the refresh\<close>

lemma failed_keeps_cache:
  "cachedData (refresh_failed S W m st) = cachedData st"
  by (simp add: refresh_failed_def Let_def split: option.splits sum.splits)

lemma resolved_sets_cache:
  "cachedData (refreshData S W now (Some (Resolved d)) st) = d"
  by (simp add: refreshData_def Let_def failed_keeps_cache split: prod.splits option.splits sum.splits)

section \<open>The sample host, evaluated\<close>

lemma host_ps: "host ps lsof probes ps_command limit = ps"
  by (simp add: host_def)

lemma host_lsof: "host ps lsof probes (lsof_command ''4321'') limit = lsof"
  by (simp add: host_def lsof_command_def ps_command_def)

lemma ps_line_facts:
  "trim (ps_line @ [CHR 0x0A]) = ps_line"
  "trim ps_line = ps_line"
  "ps_line \<noteq> []"
  "hd (split_lines ps_line) = ps_line"
  "index (split_ws ps_line) (Suc 0) = Some ''4321''"
  "parseInt_isNaN ''4321'' = False"
  "match_token ps_line = Some ''7f3a-b2c1''"
  by code_simp+

lemma ps_line_no_token_facts:
  "trim ps_line_no_token \<noteq> []"
  "match_token (hd (split_lines (trim ps_line_no_token))) = None"
  by code_simp+

lemma lsof_lines_facts:
  "trim lsof_lines \<noteq> []"
  "collect_ports (split_lines (trim lsof_lines)) = [''42099'', ''42100'', ''42101'']"
  by code_simp+

lemma host_candidates:
  "candidates (host (Stdout (ps_line @ [CHR 0x0A])) (Stdout lsof_lines) probes) =
     (Inr (''4321'', ''7f3a-b2c1'', [''42099'', ''42100'', ''42101'']),
      [Exec ps_command discovery_timeout, Exec (lsof_command ''4321'') discovery_timeout])"
  by (simp add: candidates_def host_ps host_lsof ps_line_facts lsof_lines_facts Let_def)

lemma sample_probes:
  "sample_host (curl_command ''42099'' ''7f3a-b2c1'') probe_timeout = Threw"
  "\<not> responds_200 sample_host ''7f3a-b2c1'' ''42099''"
  "\<not> responds_200 sample_host ''7f3a-b2c1'' ''42100''"
  "responds_200 sample_host ''7f3a-b2c1'' ''42101''"
  by code_simp+

lemma deaf_probes:
  "\<not> responds_200 deaf_host ''7f3a-b2c1'' ''42099''"
  "\<not> responds_200 deaf_host ''7f3a-b2c1'' ''42100''"
  "\<not> responds_200 deaf_host ''7f3a-b2c1'' ''42101''"
  by code_simp+

lemma sample_candidates:
  "fst (candidates sample_host) = Inr (''4321'', ''7f3a-b2c1'', [''42099'', ''42100'', ''42101''])"
  "snd (candidates sample_host) =
     [Exec ps_command discovery_timeout, Exec (lsof_command ''4321'') discovery_timeout]"
  by (simp_all add: sample_host_def host_candidates)

lemma sample_discover:
  "discoverServer sample_host =
     (Some sample_server,
      [Exec ps_command discovery_timeout, Exec (lsof_command ''4321'') discovery_timeout,
       probe ''7f3a-b2c1'' ''42099'', probe ''7f3a-b2c1'' ''42100'', probe ''7f3a-b2c1'' ''42101''])"
proof -
  have "probe_ports sample_host ''4321'' ''7f3a-b2c1'' ([''42099'', ''42100''] @ ''42101'' # []) =
          (Some \<lparr>pid = ''4321'', token = ''7f3a-b2c1'', port = ''42101''\<rparr>,
           map (probe ''7f3a-b2c1'') ([''42099'', ''42100''] @ [''42101'']))"
    by (rule probe_ports_found) (simp_all add: sample_probes)
  with discoverServer_candidates[OF sample_candidates(1)] show ?thesis
    by (simp add: sample_candidates(2) sample_server_def)
qed

lemma idle_discover: "fst (discoverServer idle_host) = None"
proof -
  have "no_matching_process idle_host"
    by (simp add: no_matching_process_def idle_host_def host_ps)
  from candidates_no_process[OF this] show ?thesis
    by (auto simp: discoverServer_Inl)
qed

section \<open>Properties of the specification\<close>

text \<open>
  C2. Whenever \<open>discoverServer\<close> returns a server, the probe of the returned port with the
  extracted token printed 200: the port is one of the candidate ports of the matched
  process, the token is the extracted one, and that probe is the last command run before
  the server is returned.
\<close>

theorem endpoint_passed_probe:
  assumes "discoverServer sh = (Some i, es)"
  shows "responds_200 sh (token i) (port i)
       \<and> (\<exists>ports. fst (candidates sh) = Inr (pid i, token i, ports) \<and> port i \<in> set ports)
       \<and> last es = probe (token i) (port i)"
proof -
  from discoverServer_Some[OF assms] obtain ports es0 es1 where
    c: "candidates sh = (Inr (pid i, token i, ports), es0)" and
    p: "probe_ports sh (pid i) (token i) ports = (Some i, es1)" and
    e: "es = es0 @ es1" by blast
  from probe_ports_Some[OF p] e c show ?thesis by auto
qed

theorem endpoint_passed_probe_witness:
  "fst (discoverServer sample_host) = Some sample_server
   \<and> responds_200 sample_host ''7f3a-b2c1'' ''42101''
   \<and> last (snd (discoverServer sample_host)) = probe ''7f3a-b2c1'' ''42101''"
  using endpoint_passed_probe[OF sample_discover]
  by (simp add: sample_discover sample_server_def)

text \<open>
  C3. When exactly one of the candidate ports answers 200, the discovery returns that
  port, and the probes it ran are those of the candidates up to and including that port,
  in the order of the list, and no other; the port loop of the shell script does the same.
\<close>

theorem probes_in_order:
  assumes "fst (candidates sh) = Inr (pd, t, ports)"
    and "p \<in> set ports"
    and "responds_200 sh t p"
    and "\<forall>q\<in>set ports. responds_200 sh t q \<longrightarrow> q = p"
  shows "discoverServer sh =
           (Some \<lparr>pid = pd, token = t, port = p\<rparr>,
            snd (candidates sh) @ map (probe t) (takeWhile (\<lambda>q. q \<noteq> p) ports @ [p]))
       \<and> (\<forall>curl. curl p = ''200'' \<and> (\<forall>q\<in>set ports. curl q = ''200'' \<longrightarrow> q = p) \<longrightarrow>
             port_loop curl ports = (p, takeWhile (\<lambda>q. q \<noteq> p) ports @ [p]))"
proof (intro conjI allI impI)
  from first_occurrence[OF assms(2)] obtain post where
    split: "ports = takeWhile (\<lambda>q. q \<noteq> p) ports @ p # post" by blast
  have before: "\<forall>q\<in>set (takeWhile (\<lambda>q. q \<noteq> p) ports). q \<in> set ports \<and> q \<noteq> p"
    by (auto dest: set_takeWhileD)
  {
    have "\<forall>q\<in>set (takeWhile (\<lambda>q. q \<noteq> p) ports). \<not> responds_200 sh t q"
      using assms(4) before by blast
    from probe_ports_found[OF this assms(3), of pd post] split
    have "probe_ports sh pd t ports =
            (Some \<lparr>pid = pd, token = t, port = p\<rparr>,
             map (probe t) (takeWhile (\<lambda>q. q \<noteq> p) ports @ [p]))"
      by simp
    with discoverServer_candidates[OF assms(1)]
    show "discoverServer sh =
           (Some \<lparr>pid = pd, token = t, port = p\<rparr>,
            snd (candidates sh) @ map (probe t) (takeWhile (\<lambda>q. q \<noteq> p) ports @ [p]))"
      by simp
  }
  fix curl :: "string \<Rightarrow> string"
  assume c: "curl p = ''200'' \<and> (\<forall>q\<in>set ports. curl q = ''200'' \<longrightarrow> q = p)"
  then have "\<forall>q\<in>set (takeWhile (\<lambda>q. q \<noteq> p) ports). curl q \<noteq> ''200''"
    using before by blast
  from port_loop_found[OF this, of p post] c split
  show "port_loop curl ports = (p, takeWhile (\<lambda>q. q \<noteq> p) ports @ [p])"
    by simp
qed

theorem probes_in_order_witness:
  "discoverServer sample_host =
     (Some \<lparr>pid = ''4321'', token = ''7f3a-b2c1'', port = ''42101''\<rparr>,
      [Exec ps_command discovery_timeout, Exec (lsof_command ''4321'') discovery_timeout,
       probe ''7f3a-b2c1'' ''42099'', probe ''7f3a-b2c1'' ''42100'', probe ''7f3a-b2c1'' ''42101''])
   \<and> port_loop (\<lambda>q. if q = ''42101'' then ''200'' else ''000'') [''42099'', ''42100'', ''42101'']
       = (''42101'', [''42099'', ''42100'', ''42101''])"
proof -
  have one: "\<forall>q\<in>set [''42099'', ''42100'', ''42101''].
               responds_200 sample_host ''7f3a-b2c1'' q \<longrightarrow> q = ''42101''"
    by (simp add: sample_probes)
  have "''42101'' \<in> set [''42099'', ''42100'', ''42101'']" by simp
  from probes_in_order[OF sample_candidates(1) this sample_probes(4) one]
  show ?thesis by (simp add: sample_candidates(2))
qed

text \<open>
  C4. When no process matches, or the process line has no token, or the process has no
  loopback listening port, or no candidate port answers 200, the discovery returns nothing
  and \<open>fetchMetrics\<close> fails with the one not-found error; nothing else comes out of the
  discovery.
\<close>

theorem locate_not_found:
  assumes "no_matching_process sh \<or> no_extractable_token sh
         \<or> no_listening_ports sh \<or> no_port_answers sh"
  shows "fst (discoverServer sh) = None
       \<and> promise (fetchMetrics P sh net) = Some (Rejected not_found_message)"
proof -
  have "fst (discoverServer sh) = None"
    using assms candidates_no_process candidates_no_token candidates_no_ports
      discoverServer_Inl discoverServer_no_answer by blast
  then show ?thesis by (simp add: fetchMetrics_missing)
qed

theorem locate_not_found_witness:
  "(no_matching_process idle_host
      \<and> promise (fetchMetrics read_json idle_host (answering 200 ''{}'')) = Some (Rejected not_found_message))
   \<and> (no_extractable_token tokenless_host
      \<and> promise (fetchMetrics read_json tokenless_host (answering 200 ''{}'')) = Some (Rejected not_found_message))
   \<and> (no_listening_ports portless_host
      \<and> promise (fetchMetrics read_json portless_host (answering 200 ''{}'')) = Some (Rejected not_found_message))
   \<and> (no_port_answers deaf_host
      \<and> promise (fetchMetrics read_json deaf_host (answering 200 ''{}'')) = Some (Rejected not_found_message))"
proof -
  have a: "no_matching_process idle_host"
    by (simp add: no_matching_process_def idle_host_def host_ps)
  have b: "no_extractable_token tokenless_host"
    by (simp add: no_extractable_token_def tokenless_host_def host_ps ps_line_no_token_facts)
  have c: "no_listening_ports portless_host"
    by (simp add: no_listening_ports_def portless_host_def host_ps host_lsof ps_line_facts)
  have d: "no_port_answers deaf_host"
    using deaf_probes by (simp add: no_port_answers_def deaf_host_def host_candidates)
  from a b c d
    locate_not_found[of idle_host read_json "answering 200 ''{}''"]
    locate_not_found[of tokenless_host read_json "answering 200 ''{}''"]
    locate_not_found[of portless_host read_json "answering 200 ''{}''"]
    locate_not_found[of deaf_host read_json "answering 200 ''{}''"]
  show ?thesis by simp
qed

text \<open>
  C5. When the probe of a candidate port throws and a later candidate is the first to
  answer 200, the thrown error is swallowed: the probe was run, the discovery returns the
  later port, and the promise of \<open>fetchMetrics\<close> is the outcome of the exchange with that
  port.
\<close>

theorem probe_errors_swallowed:
  assumes "fst (candidates sh) = Inr (pd, t, pre @ q # mid @ p # post)"
    and "sh (curl_command q t) probe_timeout = Threw"
    and "\<forall>r\<in>set (pre @ mid). \<not> responds_200 sh t r"
    and "responds_200 sh t p"
  shows "fst (discoverServer sh) = Some \<lparr>pid = pd, token = t, port = p\<rparr>
       \<and> probe t q \<in> set (snd (discoverServer sh))
       \<and> promise (fetchMetrics P sh net) =
           settled (run_exchange P
             (net (metrics_request \<lparr>pid = pd, token = t, port = p\<rparr>) fetch_timeout))"
proof -
  have "\<not> responds_200 sh t q"
    using assms(2) by (simp add: responds_200_def)
  with assms(3) have "\<forall>r\<in>set (pre @ q # mid). \<not> responds_200 sh t r" by auto
  from probe_ports_found[OF this assms(4), of pd post] discoverServer_candidates[OF assms(1)]
  have d: "discoverServer sh =
             (Some \<lparr>pid = pd, token = t, port = p\<rparr>,
              snd (candidates sh) @ map (probe t) ((pre @ q # mid) @ [p]))"
    by simp
  then have "fst (discoverServer sh) = Some \<lparr>pid = pd, token = t, port = p\<rparr>" by simp
  from fetchMetrics_found[OF this] d show ?thesis by simp
qed

theorem probe_errors_swallowed_witness:
  "sample_host (curl_command ''42099'' ''7f3a-b2c1'') probe_timeout = Threw
   \<and> fst (discoverServer sample_host) = Some \<lparr>pid = ''4321'', token = ''7f3a-b2c1'', port = ''42101''\<rparr>
   \<and> probe ''7f3a-b2c1'' ''42099'' \<in> set (snd (discoverServer sample_host))"
proof -
  have c: "fst (candidates sample_host) =
             Inr (''4321'', ''7f3a-b2c1'', [] @ ''42099'' # [''42100''] @ ''42101'' # [])"
    by (simp add: sample_candidates)
  have n: "\<forall>r\<in>set ([] @ [''42100'']). \<not> responds_200 sample_host ''7f3a-b2c1'' r"
    by (simp add: sample_probes)
  from probe_errors_swallowed[OF c sample_probes(1) n sample_probes(4)] sample_probes(1)
  show ?thesis by simp
qed

text \<open>
  C1 (as amended). A socket error reported while the promise is pending rejects it with the
  fetch error carrying the cause. The HTTP status is never read: replacing the status of
  the response by any other leaves the result of \<open>fetchMetrics\<close> unchanged, so the body of a
  non-200 response is parsed and returned as that of a 200 response is.
\<close>

theorem status_never_read:
  assumes "fst (discoverServer sh) = Some i"
  shows "(\<forall>pre m post.
            net (metrics_request i) fetch_timeout = pre @ SocketError m # post
              \<and> settled (run_exchange P pre) = None \<longrightarrow>
            promise (fetchMetrics P sh net) = Some (Rejected (fetch_error_message m)))
       \<and> (\<forall>st. fetchMetrics P sh (\<lambda>req limit. map (with_status st) (net req limit))
                = fetchMetrics P sh net)"
proof (intro conjI allI impI)
  fix pre m post
  assume h: "net (metrics_request i) fetch_timeout = pre @ SocketError m # post
               \<and> settled (run_exchange P pre) = None"
  let ?x = "handle P (run_exchange P pre) (SocketError m)"
  have s: "settled ?x = Some (Rejected (fetch_error_message m))"
    using h by (simp add: settle_def)
  have "run_exchange P (net (metrics_request i) fetch_timeout) = foldl (handle P) ?x post"
    using h by (simp add: run_exchange_def)
  with settled_stays[OF s, of P post]
  show "promise (fetchMetrics P sh net) = Some (Rejected (fetch_error_message m))"
    by (simp add: fetchMetrics_found[OF assms])
next
  fix st
  show "fetchMetrics P sh (\<lambda>req limit. map (with_status st) (net req limit))
          = fetchMetrics P sh net"
    by (simp add: fetchMetrics_found[OF assms] run_exchange_def run_with_status)
qed

theorem status_never_read_witness:
  "fst (discoverServer sample_host) = Some sample_server
   \<and> promise (fetchMetrics read_json sample_host (failing ''connect ECONNREFUSED'')) =
       Some (Rejected ''Failed to fetch metrics: connect ECONNREFUSED'')
   \<and> fetchMetrics read_json sample_host
         (\<lambda>req limit. map (with_status 500) (answering 200 snapshot_body req limit))
       = fetchMetrics read_json sample_host (answering 200 snapshot_body)"
proof -
  have d: "fst (discoverServer sample_host) = Some sample_server"
    by (simp add: sample_discover)
  have e: "failing ''connect ECONNREFUSED'' (metrics_request sample_server) fetch_timeout
             = [] @ SocketError ''connect ECONNREFUSED'' # []
           \<and> settled (run_exchange read_json []) = None"
    by (simp add: failing_def run_exchange_def request_sent_def)
  from status_never_read[OF d, of "failing ''connect ECONNREFUSED''" read_json] e
  have "promise (fetchMetrics read_json sample_host (failing ''connect ECONNREFUSED'')) =
          Some (Rejected (fetch_error_message ''connect ECONNREFUSED''))"
    by blast
  moreover from status_never_read[OF d, of "answering 200 snapshot_body" read_json]
  have "fetchMetrics read_json sample_host
          (\<lambda>req limit. map (with_status 500) (answering 200 snapshot_body req limit))
        = fetchMetrics read_json sample_host (answering 200 snapshot_body)"
    by blast
  ultimately show ?thesis using d by (simp add: fetch_error_message_def)
qed

text \<open>
  C1 as the specification states it does not hold: on the sample host, a response with
  status 500 that carries the JSON error object as its body resolves the promise with that
  object.
\<close>

theorem status_500_resolves:
  "promise (fetchMetrics read_json sample_host (answering 500 error_body)) =
     Some (Resolved (JObj [(''code'', JStr ''internal'')]))"
proof -
  have d: "fst (discoverServer sample_host) = Some sample_server"
    by (simp add: sample_discover)
  have "read_json error_body = Some (JObj [(''code'', JStr ''internal'')])"
    by code_simp
  with answered[OF d, of read_json 500] show ?thesis by simp
qed

text \<open>
  C6 (as amended). The promise of an answered metrics call is decided by \<^verbatim>\<open>JSON.parse\<close> on
  the received body alone: a body it rejects fails with the parse error, and a body it
  accepts is returned as parsed, whatever its shape.
\<close>

theorem body_parse_decides:
  assumes "fst (discoverServer sh) = Some i"
    and "net (metrics_request i) fetch_timeout = Response st # map Data chunks @ [End]"
  shows "promise (fetchMetrics P sh net) =
           (case P (concat chunks) of
              None \<Rightarrow> Some (Rejected parse_failure_message)
            | Some parsed \<Rightarrow> Some (Resolved parsed))"
  using assms(2)
  by (simp add: fetchMetrics_found[OF assms(1)] run_exchange_def request_sent_def
      receive_chunks settle_def split: option.splits)

theorem body_parse_decides_witness:
  "promise (fetchMetrics read_json sample_host (answering 200 ''not-json'')) =
     Some (Rejected ''Failed to parse metrics response'')
   \<and> promise (fetchMetrics read_json sample_host (answering 200 snapshot_body)) =
       Some (Resolved (JObj [(''userStatus'', JObj [(''name'', JStr ''Ann'')])]))"
proof -
  have d: "fst (discoverServer sample_host) = Some sample_server"
    by (simp add: sample_discover)
  have shape: "answering 200 b (metrics_request sample_server) fetch_timeout =
                 Response 200 # map Data [b] @ [End]" for b
    by (simp add: answering_def)
  have a: "read_json ''not-json'' = None"
    by code_simp
  have b: "read_json snapshot_body =
             Some (JObj [(''userStatus'', JObj [(''name'', JStr ''Ann'')])])"
    by code_simp
  from body_parse_decides[of sample_host sample_server "answering 200 ''not-json''" 200
      "[''not-json'']" read_json, OF d shape]
    body_parse_decides[of sample_host sample_server "answering 200 snapshot_body" 200
      "[snapshot_body]" read_json, OF d shape]
    a b
  show ?thesis by (simp add: parse_failure_message_def)
qed

text \<open>
  C6 as the specification states it does not hold: a 200 response whose body is the empty
  object, which has no \<^verbatim>\<open>userStatus\<close>, resolves the promise with that object instead
  of failing to parse.
\<close>

theorem shapeless_body_resolves:
  "promise (fetchMetrics read_json sample_host (answering 200 ''{}'')) = Some (Resolved (JObj []))
   \<and> \<not> has_userStatus (JObj [])"
proof -
  have d: "fst (discoverServer sample_host) = Some sample_server"
    by (simp add: sample_discover)
  have "read_json ''{}'' = Some (JObj [])"
    by code_simp
  with answered[OF d, of read_json 200] show ?thesis by simp
qed




text \<open>
  C8. Nothing found by one call of \<open>fetchMetrics\<close> is kept for the next: every call runs the
  process enumeration exactly once, so two calls in sequence run it twice, and a call that
  sends the metrics request has itself run \<^verbatim>\<open>ps\<close>, \<^verbatim>\<open>lsof\<close> for the process and the probe
  of the port, in that order, before the request.
\<close>

theorem every_fetch_rediscovers:
  "length (filter (\<lambda>e. e = Exec ps_command discovery_timeout)
      (effects (fetchMetrics P sh net) @ effects (fetchMetrics P sh' net'))) = 2
   \<and> (\<forall>req limit. Http req limit \<in> set (effects (fetchMetrics P sh net)) \<longrightarrow>
        (\<exists>i qs. fst (discoverServer sh) = Some i \<and> req = metrics_request i \<and>
           effects (fetchMetrics P sh net) =
             Exec ps_command discovery_timeout # Exec (lsof_command (pid i)) discovery_timeout
               # map (probe (token i)) qs @ [probe (token i) (port i), Http req limit]))"
proof (intro conjI allI impI)
  show "length (filter (\<lambda>e. e = Exec ps_command discovery_timeout)
      (effects (fetchMetrics P sh net) @ effects (fetchMetrics P sh' net'))) = 2"
    by (simp add: fetchMetrics_ps_once)
next
  fix req limit
  assume h: "Http req limit \<in> set (effects (fetchMetrics P sh net))"
  show "\<exists>i qs. fst (discoverServer sh) = Some i \<and> req = metrics_request i \<and>
           effects (fetchMetrics P sh net) =
             Exec ps_command discovery_timeout # Exec (lsof_command (pid i)) discovery_timeout
               # map (probe (token i)) qs @ [probe (token i) (port i), Http req limit]"
  proof (cases "fst (discoverServer sh)")
    case None
    with h have "Http req limit \<in> set (snd (discoverServer sh))"
      by (simp add: fetchMetrics_missing)
    then show ?thesis by (simp add: discoverServer_not_Http)
  next
    case (Some i)
    from discoverServer_effects_Some[OF Some] obtain qs where
      qs: "snd (discoverServer sh) =
           Exec ps_command discovery_timeout # Exec (lsof_command (pid i)) discovery_timeout
             # map (probe (token i)) qs @ [probe (token i) (port i)]" by blast
    with h have "req = metrics_request i" "limit = fetch_timeout"
      by (auto simp: fetchMetrics_found[OF Some] probe_def)
    with qs Some show ?thesis by (auto simp: fetchMetrics_found[OF Some])
  qed
qed

theorem every_fetch_rediscovers_witness:
  "length (filter (\<lambda>e. e = Exec ps_command discovery_timeout)
      (effects (fetchMetrics read_json sample_host (answering 200 ''{}''))
         @ effects (fetchMetrics read_json sample_host (answering 200 ''{}'')))) = 2
   \<and> Http (metrics_request sample_server) fetch_timeout
        \<in> set (effects (fetchMetrics read_json sample_host (answering 200 ''{}'')))
   \<and> (\<exists>i qs. fst (discoverServer sample_host) = Some i \<and>
         effects (fetchMetrics read_json sample_host (answering 200 ''{}'')) =
           Exec ps_command discovery_timeout # Exec (lsof_command (pid i)) discovery_timeout
             # map (probe (token i)) qs
             @ [probe (token i) (port i), Http (metrics_request sample_server) fetch_timeout])"
proof -
  have d: "fst (discoverServer sample_host) = Some sample_server"
    by (simp add: sample_discover)
  have h: "Http (metrics_request sample_server) fetch_timeout
             \<in> set (effects (fetchMetrics read_json sample_host (answering 200 ''{}'')))"
    by (simp add: fetchMetrics_found[OF d])
  from every_fetch_rediscovers[of read_json sample_host "answering 200 ''{}''"
      sample_host "answering 200 ''{}''"] h
  show ?thesis by blast
qed

text \<open>
  C9 (as amended). A refresh whose fetch fails leaves \<open>cachedData\<close> as it was; \<open>cachedData\<close>
  changes only when the awaited promise was resolved; and a resolved promise always leaves
  its value in \<open>cachedData\<close>, whatever happens to the views afterwards.
\<close>

theorem failed_refresh_keeps_cache:
  "(\<forall>m. promise (fetchMetrics P sh net) = Some (Rejected m) \<longrightarrow>
      cachedData (refreshData S W now (promise (fetchMetrics P sh net)) st) = cachedData st)
   \<and> (cachedData (refreshData S W now awaited st) \<noteq> cachedData st \<longrightarrow>
      (\<exists>d. awaited = Some (Resolved d) \<and> cachedData (refreshData S W now awaited st) = d))
   \<and> cachedData (refreshData S W now (Some (Resolved d)) st) = d"
proof (intro conjI allI impI)
  fix m
  assume "promise (fetchMetrics P sh net) = Some (Rejected m)"
  then show "cachedData (refreshData S W now (promise (fetchMetrics P sh net)) st) = cachedData st"
    by (simp add: refreshData_def Let_def failed_keeps_cache)
next
  assume changed: "cachedData (refreshData S W now awaited st) \<noteq> cachedData st"
  show "\<exists>d. awaited = Some (Resolved d) \<and> cachedData (refreshData S W now awaited st) = d"
  proof (cases awaited)
    case None
    with changed show ?thesis by (simp add: refreshData_def Let_def)
  next
    case (Some r)
    show ?thesis
    proof (cases r)
      case (Resolved d)
      with Some show ?thesis by (simp add: resolved_sets_cache)
    next
      case (Rejected m)
      with Some changed show ?thesis by (simp add: refreshData_def Let_def failed_keeps_cache)
    qed
  qed
next
  show "cachedData (refreshData S W now (Some (Resolved d)) st) = d"
    by (rule resolved_sets_cache)
qed

theorem failed_refresh_keeps_cache_witness:
  "promise (fetchMetrics read_json idle_host (answering 200 ''{}'')) = Some (Rejected not_found_message)
   \<and> cachedData (refreshData (\<lambda>j. None) (\<lambda>j. None) 1735680000000
        (promise (fetchMetrics read_json idle_host (answering 200 ''{}''))) sample_extension)
       = JObj [(''userStatus'', JObj [(''name'', JStr ''Ann'')])]"
proof -
  have r: "promise (fetchMetrics read_json idle_host (answering 200 ''{}'')) =
             Some (Rejected not_found_message)"
    by (simp add: fetchMetrics_missing idle_discover)
  from failed_refresh_keeps_cache[of read_json idle_host "answering 200 ''{}''"
      "\<lambda>j. None" "\<lambda>j. None" 1735680000000 sample_extension] r
  show ?thesis by (simp add: sample_extension_def)
qed

text \<open>
  C9 as the specification states it does not hold: on the sample host a 200 response with
  the empty object resolves the fetch; \<open>cachedData\<close> takes the empty object, the sidebar's
  template throws on it, and the refresh ends in the \<^verbatim>\<open>catch\<close> block, reported as failed,
  with the snapshot cached before replaced by the empty object.
\<close>

theorem failed_render_overwrites:
  "cachedData sample_extension = JObj [(''userStatus'', JObj [(''name'', JStr ''Ann'')])]
   \<and> promise (fetchMetrics read_json sample_host (answering 200 ''{}'')) = Some (Resolved (JObj []))
   \<and> notifications (refreshData strict_template strict_template 1735680000000
        (promise (fetchMetrics read_json sample_host (answering 200 ''{}''))) sample_extension)
       = [ErrorMessage (''Failed to refresh: '' @ type_error_message)]
   \<and> cachedData (refreshData strict_template strict_template 1735680000000
        (promise (fetchMetrics read_json sample_host (answering 200 ''{}''))) sample_extension)
       = JObj []"
proof -
  have d: "fst (discoverServer sample_host) = Some sample_server"
    by (simp add: sample_discover)
  have "read_json ''{}'' = Some (JObj [])"
    by code_simp
  with answered[OF d, of read_json 200]
  have r: "promise (fetchMetrics read_json sample_host (answering 200 ''{}'')) =
             Some (Resolved (JObj []))"
    by simp
  have n: "notifications (refreshData strict_template strict_template 1735680000000
             (Some (Resolved (JObj []))) sample_extension)
           = [ErrorMessage (''Failed to refresh: '' @ type_error_message)]"
    by (simp add: refreshData_def refresh_failed_def refresh_def setLoading_def updateView_def
        sidebar_content_def panel_content_def shown_error_def strict_template_def
        sample_extension_def empty_sidebar_def type_error_message_def Let_def)
  show ?thesis
    by (simp add: r n resolved_sets_cache) (simp add: sample_extension_def)
qed

text \<open>
  C10. For a reset time that is not a date, \<open>formatResetTime\<close> returns \<^verbatim>\<open>NaNm\<close>: the
  difference is \<^verbatim>\<open>NaN\<close>, every comparison with it is false, and the last branch prints
  the minutes.
\<close>

theorem invalid_date_NaNm:
  assumes "D resetTime = None"
  shows "formatResetTime D now resetTime = ''NaNm''"
  using assms by (simp add: formatResetTime_def getTime_def)

theorem invalid_date_NaNm_witness:
  "sample_dates ''not a date'' = None
   \<and> formatResetTime sample_dates 1735680000000 ''not a date'' = ''NaNm''"
proof -
  have n: "sample_dates ''not a date'' = None"
    by (simp add: sample_dates_def)
  from invalid_date_NaNm[of sample_dates "''not a date''" 1735680000000] n
  show ?thesis by simp
qed

end
